theory Spec2Isabelle
  imports Main
begin

section \<open>JavaScript values\<close>

text \<open>
  The values the application stores and exchanges are JSON values: what \<open>JSON.parse\<close>
  and \<open>response.json()\<close> produce. \<open>null\<close> is \<open>JNull\<close>; \<open>undefined\<close> is not a JSON
  value and shows up only as a missing property (\<open>None\<close> below). Numbers are the
  integer-valued ones; strings are byte lists holding UTF-8 text. An object is the list
  of its own properties, keys distinct, in insertion order.
\<close>

datatype jsval =
    JNull
  | JBool bool
  | JNum int
  | JStr string
  | JArr "jsval list"
  | JObj "(string \<times> jsval) list"

text \<open>What a thrown value is: a platform error, or \<open>new Error(message)\<close>.\<close>

datatype js_error = SyntaxError | TypeError | Error string

text \<open>ToBoolean, as \<open>if (x)\<close>, \<open>x && y\<close>, \<open>x || y\<close> and \<open>!x\<close> apply it.\<close>

fun truthy :: "jsval \<Rightarrow> bool" where
  "truthy JNull = False"
| "truthy (JBool b) = b"
| "truthy (JNum n) = (n \<noteq> 0)"
| "truthy (JStr s) = (s \<noteq> [])"
| "truthy (JArr _) = True"
| "truthy (JObj _) = True"

text \<open>
  The property read \<open>v.k\<close> on a value other than \<open>null\<close>, for the keys the application
  reads (\<open>name\<close>, \<open>role\<close>): an object's own property, \<open>undefined\<close> (\<open>None\<close>) otherwise.
  On \<open>null\<close> the read throws a TypeError; each caller below has that branch.
\<close>

fun js_get :: "jsval \<Rightarrow> string \<Rightarrow> jsval option" where
  "js_get (JObj kvs) k = map_of kvs k"
| "js_get _ k = None"

section \<open>store.js: the Store and the persisted slot\<close>

text \<open>
  \<open>Store.state\<close> has the fields \<open>user\<close>, \<open>students\<close> and \<open>payments\<close>; \<open>localStorage\<close>
  maps keys to strings and outlives a page load. Console output is not modelled.
\<close>

record world =
  user :: jsval
  students :: "jsval list"
  payments :: "jsval list"
  localStorage :: "string \<rightharpoonup> string"

text \<open>A page load starts from the state literal of store.js and keeps \<open>localStorage\<close>.\<close>

definition page_load :: "(string \<rightharpoonup> string) \<Rightarrow> world" where
  "page_load ls = \<lparr>user = JNull, students = [], payments = [], localStorage = ls\<rparr>"

text \<open>
  \<open>Store.init()\<close>. \<open>getItem\<close> answers \<open>null\<close> for a missing key, and the empty string is
  falsy too. \<open>JSON.parse\<close> is the platform's: \<open>parse s = None\<close> stands for the
  SyntaxError it throws. There is no \<open>try\<close> in store.js, so the error leaves \<open>init\<close>.
  The log line reads \<open>this.state.user.name\<close> after the assignment; it throws a TypeError
  when the parsed value is \<open>null\<close>.
\<close>

definition init :: "(string \<Rightarrow> jsval option) \<Rightarrow> world \<Rightarrow> (js_error + unit) \<times> world" where
  "init parse w =
     (case localStorage w ''currentUser'' of
        None \<Rightarrow> (Inr (), w)
      | Some savedUser \<Rightarrow>
          if savedUser = [] then (Inr (), w)
          else (case parse savedUser of
                  None \<Rightarrow> (Inl SyntaxError, w)
                | Some v \<Rightarrow>
                    let w' = w\<lparr>user := v\<rparr>
                    in if v = JNull then (Inl TypeError, w') else (Inr (), w')))"

text \<open>
  \<open>Store.setUser(user)\<close>: memory first, then the slot, then a log line that reads
  \<open>user.name\<close> (a TypeError for \<open>null\<close>, after both writes). \<open>JSON.stringify\<close> is the
  platform's. The storage quota is not modelled.
\<close>

definition setUser :: "(jsval \<Rightarrow> string) \<Rightarrow> jsval \<Rightarrow> world \<Rightarrow> (js_error + unit) \<times> world" where
  "setUser stringify u w =
     (let w1 = w\<lparr>user := u\<rparr>;
          w2 = w1\<lparr>localStorage := (localStorage w1)(''currentUser'' \<mapsto> stringify u)\<rparr>
      in if u = JNull then (Inl TypeError, w2) else (Inr (), w2))"

definition getUser :: "world \<Rightarrow> jsval" where
  "getUser w = user w"

definition clearUser :: "world \<Rightarrow> world" where
  "clearUser w =
     (let w1 = w\<lparr>user := JNull\<rparr>
      in w1\<lparr>localStorage := (localStorage w1)(''currentUser'' := None)\<rparr>)"

section \<open>authService.js: the session predicates\<close>

definition isAuthenticated :: "world \<Rightarrow> bool" where
  "isAuthenticated w = (getUser w \<noteq> JNull)"

text \<open>
  \<open>isAdmin()\<close> returns \<open>user && user.role === 'admin'\<close>; its callers use the result as a
  condition, so the model returns its truth value.
\<close>

definition isAdmin :: "world \<Rightarrow> bool" where
  "isAdmin w =
     (let u = getUser w in truthy u \<and> js_get u ''role'' = Some (JStr ''admin''))"

section \<open>router.js: the route guard\<close>

datatype view =
    LoginView | RegisterView | DashboardView | StudentsListView | PaymentsView
  | CreateStudentView | EditStudentView | NotFoundView
  | Inherited string

definition routes :: "(string \<times> view) list" where
  "routes =
     [(''/'', LoginView),
      (''/login'', LoginView),
      (''/register'', RegisterView),
      (''/dashboard'', DashboardView),
      (''/students'', StudentsListView),
      (''/payments'', PaymentsView),
      (''/students/create'', CreateStudentView),
      (''/students/edit'', EditStudentView),
      (''/not-found'', NotFoundView)]"

text \<open>
  \<open>routes\<close> is an object literal, so \<open>this.routes[path]\<close> also finds what every object
  inherits from \<open>Object.prototype\<close>; those values are truthy and reach \<open>render\<close>.
\<close>

definition object_prototype_keys :: "string list" where
  "object_prototype_keys =
     [''constructor'', ''hasOwnProperty'', ''isPrototypeOf'', ''propertyIsEnumerable'',
      ''toLocaleString'', ''toString'', ''valueOf'', ''__proto__'',
      ''__defineGetter__'', ''__defineSetter__'', ''__lookupGetter__'', ''__lookupSetter__'']"

definition routes_lookup :: "string \<Rightarrow> view option" where
  "routes_lookup path =
     (case map_of routes path of
        Some v \<Rightarrow> Some v
      | None \<Rightarrow> if path \<in> set object_prototype_keys then Some (Inherited path) else None)"

definition protectedRoutes :: "string list" where
  "protectedRoutes =
     [''/dashboard'', ''/students'', ''/payments'', ''/students/create'', ''/students/edit'']"

definition adminRoutes :: "string list" where
  "adminRoutes = [''/students/create'', ''/students/edit'']"

text \<open>
  \<open>window.location.hash.slice(1) || '/'\<close>, then \<open>.split('?')[0]\<close>: the hash without its
  first character, \<open>/\<close> when that is empty, cut at the first question mark.
\<close>

definition path_of :: "string \<Rightarrow> string" where
  "path_of location_hash =
     (let hash = (if drop 1 location_hash = [] then ''/'' else drop 1 location_hash)
      in takeWhile (\<lambda>c. c \<noteq> CHR ''?'') hash)"

text \<open>
  One run of \<open>handleRoute()\<close> either assigns \<open>window.location.hash\<close> and returns, or
  calls \<open>render\<close> with a view.
\<close>

datatype outcome = Redirect string | Render view

definition handleRoute :: "string \<Rightarrow> world \<Rightarrow> outcome" where
  "handleRoute location_hash w =
     (let path = path_of location_hash
      in if path \<in> set protectedRoutes \<and> \<not> isAuthenticated w then Redirect ''#/login''
         else if path \<in> set adminRoutes \<and> \<not> isAdmin w then Redirect ''#/not-found''
         else if (path = ''/'' \<or> path = ''/login'') \<and> isAuthenticated w
           then Redirect ''#/dashboard''
         else Render (case routes_lookup path of Some v \<Rightarrow> v | None \<Rightarrow> NotFoundView))"


section \<open>apiService.js: the API client\<close>

text \<open>
  \<open>fetch\<close> is the platform's. Its promise rejects on a transport failure, or resolves to
  a response with \<open>status\<close>, \<open>statusText\<close> and a body; the third field is what
  \<open>response.json()\<close> gives, \<open>None\<close> when the body is not JSON text (a SyntaxError).
  Bodies travel as JSON text; the model carries the value the text denotes. The peer is
  described route by route, by a handler typed with what the route answers: json-server
  answers a collection query with an array and a creation with the stored object. The
  network state keeps the peer's state and the list of requests sent so far.
\<close>

datatype http_method = GET | POST | PUT | DELETE

record request =
  meth :: http_method
  url :: string
  headers :: "(string \<times> string) list"
  body :: "jsval option"

datatype 'b fetch_result = Rejected js_error | Response nat string "'b option"

record 's net =
  peer :: 's
  sent :: "request list"

definition fetch ::
  "('s \<Rightarrow> request \<Rightarrow> 'b fetch_result \<times> 's) \<Rightarrow> request \<Rightarrow> 's net \<Rightarrow> 'b fetch_result \<times> 's net" where
  "fetch srv rq n =
     (let (r, s') = srv (peer n) rq in (r, \<lparr>peer = s', sent = sent n @ [rq]\<rparr>))"

definition API_URL :: string where
  "API_URL = ''http://localhost:3000''"

text \<open>\<open>response.ok\<close>: a status from 200 to 299.\<close>

definition ok :: "nat \<Rightarrow> bool" where
  "ok status = (200 \<le> status \<and> status \<le> 299)"

text \<open>A number inside a template literal: its decimal digits.\<close>

function show_nat :: "nat \<Rightarrow> string" where
  "show_nat n =
     (if n < 10 then [''0123456789'' ! n]
      else show_nat (n div 10) @ [''0123456789'' ! (n mod 10)])"
  by pat_completeness auto
termination
  by (relation "measure id") auto

definition get_request :: "string \<Rightarrow> request" where
  "get_request endpoint =
     \<lparr>meth = GET, url = API_URL @ endpoint, headers = [], body = None\<rparr>"

definition post_request :: "string \<Rightarrow> jsval \<Rightarrow> request" where
  "post_request endpoint data =
     \<lparr>meth = POST, url = API_URL @ endpoint,
      headers = [(''Content-Type'', ''application/json'')], body = Some data\<rparr>"

definition put_request :: "string \<Rightarrow> jsval \<Rightarrow> request" where
  "put_request endpoint data =
     \<lparr>meth = PUT, url = API_URL @ endpoint,
      headers = [(''Content-Type'', ''application/json'')], body = Some data\<rparr>"

definition delete_request :: "string \<Rightarrow> request" where
  "delete_request endpoint =
     \<lparr>meth = DELETE, url = API_URL @ endpoint, headers = [], body = None\<rparr>"

text \<open>
  The four methods. Each \<open>catch\<close> logs and throws the same error again, so the error
  that leaves the method is the one raised inside the \<open>try\<close>.
\<close>

definition apiService_get ::
  "('s \<Rightarrow> request \<Rightarrow> 'b fetch_result \<times> 's) \<Rightarrow> string \<Rightarrow> 's net \<Rightarrow> (js_error + 'b) \<times> 's net" where
  "apiService_get srv endpoint n =
     (let (response, n') = fetch srv (get_request endpoint) n
      in case response of
           Rejected e \<Rightarrow> (Inl e, n')
         | Response status statusText json \<Rightarrow>
             if \<not> ok status
             then (Inl (Error (''Error fetching data: '' @ show_nat status @ '' '' @ statusText)), n')
             else (case json of None \<Rightarrow> (Inl SyntaxError, n') | Some v \<Rightarrow> (Inr v, n')))"

definition apiService_post ::
  "('s \<Rightarrow> request \<Rightarrow> 'b fetch_result \<times> 's) \<Rightarrow> string \<Rightarrow> jsval \<Rightarrow> 's net \<Rightarrow> (js_error + 'b) \<times> 's net" where
  "apiService_post srv endpoint data n =
     (let (response, n') = fetch srv (post_request endpoint data) n
      in case response of
           Rejected e \<Rightarrow> (Inl e, n')
         | Response status statusText json \<Rightarrow>
             if \<not> ok status
             then (Inl (Error (''Error posting data: '' @ show_nat status @ '' '' @ statusText)), n')
             else (case json of None \<Rightarrow> (Inl SyntaxError, n') | Some v \<Rightarrow> (Inr v, n')))"

definition apiService_put ::
  "('s \<Rightarrow> request \<Rightarrow> 'b fetch_result \<times> 's) \<Rightarrow> string \<Rightarrow> jsval \<Rightarrow> 's net \<Rightarrow> (js_error + 'b) \<times> 's net" where
  "apiService_put srv endpoint data n =
     (let (response, n') = fetch srv (put_request endpoint data) n
      in case response of
           Rejected e \<Rightarrow> (Inl e, n')
         | Response status statusText json \<Rightarrow>
             if \<not> ok status
             then (Inl (Error (''Error updating data: '' @ show_nat status @ '' '' @ statusText)), n')
             else (case json of None \<Rightarrow> (Inl SyntaxError, n') | Some v \<Rightarrow> (Inr v, n')))"

definition apiService_delete ::
  "('s \<Rightarrow> request \<Rightarrow> 'b fetch_result \<times> 's) \<Rightarrow> string \<Rightarrow> 's net \<Rightarrow> (js_error + bool) \<times> 's net" where
  "apiService_delete srv endpoint n =
     (let (response, n') = fetch srv (delete_request endpoint) n
      in case response of
           Rejected e \<Rightarrow> (Inl e, n')
         | Response status statusText json \<Rightarrow>
             if \<not> ok status
             then (Inl (Error (''Error deleting data: '' @ show_nat status @ '' '' @ statusText)), n')
             else (Inr True, n'))"

section \<open>authService.js: login and register\<close>

text \<open>The result object: \<open>{success: true, user}\<close> or \<open>{success: false, message}\<close>.\<close>

datatype auth_result = Success jsval | Failure string

definition invalid_credentials_message :: string where
  "invalid_credentials_message = ''Credenciales inv'' @ [CHR 0xC3, CHR 0xA1] @ ''lidas''"

definition login_error_message :: string where
  "login_error_message =
     ''Error al iniciar sesi'' @ [CHR 0xC3, CHR 0xB3] @ ''n. Por favor intenta de nuevo.''"

definition email_registered_message :: string where
  "email_registered_message = ''El email ya est'' @ [CHR 0xC3, CHR 0xA1] @ '' registrado''"

definition register_error_message :: string where
  "register_error_message = ''Error al registrar usuario. Por favor intenta de nuevo.''"

text \<open>
  \<open>login(email, password)\<close>. The whole body is inside one \<open>try\<close>: an error thrown by
  \<open>apiService.get\<close>, or by \<open>Store.setUser\<close>, ends in the \<open>catch\<close> branch.
\<close>

definition login ::
  "('s \<Rightarrow> request \<Rightarrow> jsval list fetch_result \<times> 's) \<Rightarrow> (jsval \<Rightarrow> string) \<Rightarrow>
   string \<Rightarrow> string \<Rightarrow> world \<times> 's net \<Rightarrow> auth_result \<times> world \<times> 's net" where
  "login srv stringify email password wn =
     (let (w, n) = wn;
          (r, n') = apiService_get srv (''/users?email='' @ email @ ''&password='' @ password) n
      in case r of
           Inl error \<Rightarrow> (Failure login_error_message, w, n')
         | Inr users \<Rightarrow>
             if length users > 0
             then (let u = users ! 0;
                       (r', w') = setUser stringify u w
                   in case r' of
                        Inl error \<Rightarrow> (Failure login_error_message, w', n')
                      | Inr _ \<Rightarrow> (Success u, w', n'))
             else (Failure invalid_credentials_message, w, n'))"

text \<open>
  The argument of \<open>register\<close>, as register.js builds it from the form; \<open>role\<close> is
  optional (\<open>None\<close>: the property is missing).
\<close>

record userData =
  name :: string
  email :: string
  password :: string
  role :: "jsval option"

text \<open>\<open>{...userData, role: userData.role || 'user'}\<close>\<close>

definition new_user :: "userData \<Rightarrow> jsval" where
  "new_user userData =
     JObj [(''name'', JStr (name userData)),
           (''email'', JStr (email userData)),
           (''password'', JStr (password userData)),
           (''role'', (case role userData of
                         None \<Rightarrow> JStr ''user''
                       | Some r \<Rightarrow> if truthy r then r else JStr ''user''))]"

definition register ::
  "('s \<Rightarrow> request \<Rightarrow> jsval list fetch_result \<times> 's) \<Rightarrow>
   ('s \<Rightarrow> request \<Rightarrow> jsval fetch_result \<times> 's) \<Rightarrow> (jsval \<Rightarrow> string) \<Rightarrow>
   userData \<Rightarrow> world \<times> 's net \<Rightarrow> auth_result \<times> world \<times> 's net" where
  "register srv_get srv_post stringify userData wn =
     (let (w, n) = wn;
          (r, n1) = apiService_get srv_get (''/users?email='' @ email userData) n
      in case r of
           Inl error \<Rightarrow> (Failure register_error_message, w, n1)
         | Inr existingUsers \<Rightarrow>
             if length existingUsers > 0
             then (Failure email_registered_message, w, n1)
             else (let (r2, n2) = apiService_post srv_post ''/users'' (new_user userData) n1
                   in case r2 of
                        Inl error \<Rightarrow> (Failure register_error_message, w, n2)
                      | Inr newUser \<Rightarrow>
                          (let (r3, w') = setUser stringify newUser w
                           in case r3 of
                                Inl error \<Rightarrow> (Failure register_error_message, w', n2)
                              | Inr _ \<Rightarrow> (Success newUser, w', n2))))"

section \<open>A platform to run the model on\<close>

text \<open>
  The definitions above take \<open>JSON.parse\<close> and \<open>JSON.stringify\<close> as parameters. To
  evaluate them on concrete inputs, this section supplies both for the JSON texts whose
  numbers are integers without fraction or exponent and whose strings have no \<open>\u\<close>
  escapes. The parser reads a text from left to right; its first argument bounds the
  number of nested calls and is set from the length of the text.
\<close>

definition is_ws :: "char \<Rightarrow> bool" where
  "is_ws c = (c = CHR '' '' \<or> c = CHR 0x09 \<or> c = CHR 0x0A \<or> c = CHR 0x0D)"

fun skip_ws :: "string \<Rightarrow> string" where
  "skip_ws [] = []"
| "skip_ws (c # cs) = (if is_ws c then skip_ws cs else c # cs)"

definition is_digit :: "char \<Rightarrow> bool" where
  "is_digit c = (48 \<le> (of_char c :: nat) \<and> (of_char c :: nat) \<le> 57)"

definition digits_value :: "string \<Rightarrow> int" where
  "digits_value ds = foldl (\<lambda>n c. 10 * n + (of_char c - 48)) 0 ds"

text \<open>The character an escape \<open>\c\<close> stands for.\<close>

definition unescape :: "char \<Rightarrow> char option" where
  "unescape c =
     (if c = CHR 0x22 then Some (CHR 0x22)
      else if c = CHR 0x5C then Some (CHR 0x5C)
      else if c = CHR ''/'' then Some (CHR ''/'')
      else if c = CHR ''b'' then Some (CHR 0x08)
      else if c = CHR ''f'' then Some (CHR 0x0C)
      else if c = CHR ''n'' then Some (CHR 0x0A)
      else if c = CHR ''r'' then Some (CHR 0x0D)
      else if c = CHR ''t'' then Some (CHR 0x09)
      else None)"

text \<open>The characters of a string literal after its opening quote, and the rest.\<close>

fun parse_chars :: "string \<Rightarrow> (string \<times> string) option" where
  "parse_chars [] = None"
| "parse_chars [c] = (if c = CHR 0x22 then Some ([], []) else None)"
| "parse_chars (c # d # cs) =
     (if c = CHR 0x22 then Some ([], d # cs)
      else if c = CHR 0x5C then
        (case unescape d of
           None \<Rightarrow> None
         | Some x \<Rightarrow> map_option (\<lambda>(s, rest). (x # s, rest)) (parse_chars cs))
      else if (of_char c :: nat) < 32 then None
      else map_option (\<lambda>(s, rest). (c # s, rest)) (parse_chars (d # cs)))"

text \<open>An integer literal: an optional minus sign, then \<open>0\<close> or digits not starting with \<open>0\<close>.\<close>

definition parse_number :: "string \<Rightarrow> (jsval \<times> string) option" where
  "parse_number s =
     (let neg = (take 1 s = ''-'');
          t = (if neg then drop 1 s else s);
          ds = takeWhile is_digit t;
          rest = dropWhile is_digit t
      in if ds = [] \<or> (length ds > 1 \<and> hd ds = CHR ''0'') then None
         else if take 1 rest = ''.'' \<or> take 1 rest = ''e'' \<or> take 1 rest = ''E'' then None
         else Some (JNum (if neg then - digits_value ds else digits_value ds), rest))"

definition parse_literal :: "string \<Rightarrow> jsval \<Rightarrow> string \<Rightarrow> (jsval \<times> string) option" where
  "parse_literal word v s =
     (if take (length word) s = word then Some (v, drop (length word) s) else None)"

text \<open>
  Setting a property: the value is replaced where the key exists, and the pair is added
  at the end otherwise, so a repeated key in a text keeps its last value.
\<close>

fun js_put :: "string \<Rightarrow> jsval \<Rightarrow> (string \<times> jsval) list \<Rightarrow> (string \<times> jsval) list" where
  "js_put k v [] = [(k, v)]"
| "js_put k v (p # ps) = (if fst p = k then (k, v) # ps else p # js_put k v ps)"

fun parse_value :: "nat \<Rightarrow> string \<Rightarrow> (jsval \<times> string) option"
  and parse_elements :: "nat \<Rightarrow> jsval list \<Rightarrow> string \<Rightarrow> (jsval \<times> string) option"
  and parse_members :: "nat \<Rightarrow> (string \<times> jsval) list \<Rightarrow> string \<Rightarrow> (jsval \<times> string) option"
where
  "parse_value 0 s = None"
| "parse_value (Suc fuel) s =
     (case skip_ws s of
        [] \<Rightarrow> None
      | c # cs \<Rightarrow>
          if c = CHR ''n'' then parse_literal ''null'' JNull (c # cs)
          else if c = CHR ''t'' then parse_literal ''true'' (JBool True) (c # cs)
          else if c = CHR ''f'' then parse_literal ''false'' (JBool False) (c # cs)
          else if c = CHR 0x22 then map_option (\<lambda>(s, rest). (JStr s, rest)) (parse_chars cs)
          else if c = CHR ''['' then
            (case skip_ws cs of
               [] \<Rightarrow> None
             | d # ds \<Rightarrow> if d = CHR '']'' then Some (JArr [], ds)
                         else parse_elements fuel [] (d # ds))
          else if c = CHR ''{'' then
            (case skip_ws cs of
               [] \<Rightarrow> None
             | d # ds \<Rightarrow> if d = CHR ''}'' then Some (JObj [], ds)
                         else parse_members fuel [] (d # ds))
          else parse_number (c # cs))"
| "parse_elements 0 acc s = None"
| "parse_elements (Suc fuel) acc s =
     (case parse_value fuel s of
        None \<Rightarrow> None
      | Some (v, rest) \<Rightarrow>
          (case skip_ws rest of
             [] \<Rightarrow> None
           | d # ds \<Rightarrow> if d = CHR '','' then parse_elements fuel (acc @ [v]) ds
                       else if d = CHR '']'' then Some (JArr (acc @ [v]), ds)
                       else None))"
| "parse_members 0 acc s = None"
| "parse_members (Suc fuel) acc s =
     (case skip_ws s of
        [] \<Rightarrow> None
      | q # cs \<Rightarrow>
          if q \<noteq> CHR 0x22 then None
          else (case parse_chars cs of
                  None \<Rightarrow> None
                | Some (k, rest) \<Rightarrow>
                    (case skip_ws rest of
                       [] \<Rightarrow> None
                     | d # ds \<Rightarrow>
                         if d \<noteq> CHR '':'' then None
                         else (case parse_value fuel ds of
                                 None \<Rightarrow> None
                               | Some (v, rest') \<Rightarrow>
                                   (case skip_ws rest' of
                                      [] \<Rightarrow> None
                                    | e # es \<Rightarrow>
                                        if e = CHR '','' then parse_members fuel (js_put k v acc) es
                                        else if e = CHR ''}'' then Some (JObj (js_put k v acc), es)
                                        else None)))))"

definition json_parse :: "string \<Rightarrow> jsval option" where
  "json_parse s =
     (case parse_value (Suc (length s)) s of
        None \<Rightarrow> None
      | Some (v, rest) \<Rightarrow> if skip_ws rest = [] then Some v else None)"

text \<open>Serialisation, without added white space, as \<open>JSON.stringify\<close> with one argument.\<close>

definition hex_digit :: "nat \<Rightarrow> char" where
  "hex_digit d = ''0123456789abcdef'' ! (d mod 16)"

definition escape :: "char \<Rightarrow> string" where
  "escape c =
     (if c = CHR 0x22 then [CHR 0x5C, CHR 0x22]
      else if c = CHR 0x5C then [CHR 0x5C, CHR 0x5C]
      else if c = CHR 0x08 then [CHR 0x5C, CHR ''b'']
      else if c = CHR 0x0C then [CHR 0x5C, CHR ''f'']
      else if c = CHR 0x0A then [CHR 0x5C, CHR ''n'']
      else if c = CHR 0x0D then [CHR 0x5C, CHR ''r'']
      else if c = CHR 0x09 then [CHR 0x5C, CHR ''t'']
      else if (of_char c :: nat) < 32
        then [CHR 0x5C, CHR ''u'', CHR ''0'', CHR ''0'',
              hex_digit (of_char c div 16), hex_digit (of_char c mod 16)]
      else [c])"

definition quote :: "string \<Rightarrow> string" where
  "quote s = CHR 0x22 # concat (map escape s) @ [CHR 0x22]"

definition show_int :: "int \<Rightarrow> string" where
  "show_int i = (if i < 0 then CHR ''-'' # show_nat (nat (- i)) else show_nat (nat i))"

fun json_stringify :: "jsval \<Rightarrow> string"
  and stringify_elements :: "jsval list \<Rightarrow> string"
  and stringify_members :: "(string \<times> jsval) list \<Rightarrow> string"
where
  "json_stringify JNull = ''null''"
| "json_stringify (JBool b) = (if b then ''true'' else ''false'')"
| "json_stringify (JNum i) = show_int i"
| "json_stringify (JStr s) = quote s"
| "json_stringify (JArr vs) = ''['' @ stringify_elements vs @ '']''"
| "json_stringify (JObj kvs) = ''{'' @ stringify_members kvs @ ''}''"
| "stringify_elements [] = []"
| "stringify_elements [v] = json_stringify v"
| "stringify_elements (v # w # vs) = json_stringify v @ '','' @ stringify_elements (w # vs)"
| "stringify_members [] = []"
| "stringify_members [(k, v)] = quote k @ '':'' @ json_stringify v"
| "stringify_members ((k, v) # p # kvs) =
     quote k @ '':'' @ json_stringify v @ '','' @ stringify_members (p # kvs)"

section \<open>Peers to run the model against\<close>

text \<open>A peer that answers every request with status 500, and one that cannot be reached.\<close>

definition server_error :: "'s \<Rightarrow> request \<Rightarrow> 'b fetch_result \<times> 's" where
  "server_error s rq = (Response 500 ''Internal Server Error'' None, s)"

definition unreachable :: "'s \<Rightarrow> request \<Rightarrow> 'b fetch_result \<times> 's" where
  "unreachable s rq = (Rejected TypeError, s)"

text \<open>
  A backend in the manner of json-server, holding the users table. A query is
  answered with the stored users whose email (and password, when the query has one) is
  equal to the text in the URL; a POST stores the body under a fresh id.
\<close>

definition string_field :: "jsval \<Rightarrow> string \<Rightarrow> string option" where
  "string_field u k = (case js_get u k of Some (JStr s) \<Rightarrow> Some s | _ \<Rightarrow> None)"

definition exact_match :: "string \<Rightarrow> jsval \<Rightarrow> bool" where
  "exact_match query u =
     (case string_field u ''email'' of
        None \<Rightarrow> False
      | Some e \<Rightarrow>
          query = API_URL @ ''/users?email='' @ e \<or>
          (case string_field u ''password'' of
             None \<Rightarrow> False
           | Some p \<Rightarrow> query = API_URL @ ''/users?email='' @ e @ ''&password='' @ p))"

definition exact_match_get :: "jsval list \<Rightarrow> request \<Rightarrow> jsval list fetch_result \<times> jsval list" where
  "exact_match_get db rq = (Response 200 ''OK'' (Some (filter (exact_match (url rq)) db)), db)"

definition exact_match_post :: "jsval list \<Rightarrow> request \<Rightarrow> jsval fetch_result \<times> jsval list" where
  "exact_match_post db rq =
     (case body rq of
        Some (JObj kvs) \<Rightarrow>
          (let stored = JObj (js_put ''id'' (JNum (int (length db) + 1)) kvs)
           in (Response 201 ''Created'' (Some stored), db @ [stored]))
      | _ \<Rightarrow> (Response 400 ''Bad Request'' None, db))"

text \<open>The seeded administrator account, and a backend that holds it.\<close>

definition admin_record :: jsval where
  "admin_record =
     JObj [(''id'', JStr ''1''), (''name'', JStr ''Admin''), (''email'', JStr ''admin@crudops.com''),
           (''password'', JStr ''admin123''), (''role'', JStr ''admin'')]"

definition seeded :: "jsval list net" where
  "seeded = \<lparr>peer = [admin_record], sent = []\<rparr>"

text \<open>
  Two registrations in a row against an empty backend, from a fresh page: the emails
  differ only in letter case.
\<close>

definition ana_lower :: userData where
  "ana_lower =
     \<lparr>name = ''Ana'', email = ''ana@test.com'', password = ''secret'',
      role = Some (JStr ''user'')\<rparr>"

definition ana_upper :: userData where
  "ana_upper =
     \<lparr>name = ''Ana'', email = ''Ana@Test.com'', password = ''secret'',
      role = Some (JStr ''user'')\<rparr>"

definition first_registration :: "auth_result \<times> world \<times> jsval list net" where
  "first_registration =
     register exact_match_get exact_match_post json_stringify ana_lower
       (page_load Map.empty, \<lparr>peer = [], sent = []\<rparr>)"

definition second_registration :: "auth_result \<times> world \<times> jsval list net" where
  "second_registration =
     register exact_match_get exact_match_post json_stringify ana_upper
       (snd first_registration)"

text \<open>A registration whose role field is the empty string.\<close>

definition bea :: userData where
  "bea = \<lparr>name = ''Bea'', email = ''bea@test.com'', password = ''secret'', role = Some (JStr [])\<rparr>"

text \<open>
  \<open>fetch\<close> is given the URL as text. A URL ends at the first \<open>#\<close>; what follows is the
  fragment, which stays in the browser and is not part of the HTTP request. A peer
  behind HTTP therefore sees each request without it.
\<close>

definition without_fragment :: "string \<Rightarrow> string" where
  "without_fragment u = takeWhile (\<lambda>c. c \<noteq> CHR ''#'') u"

definition over_http ::
  "('s \<Rightarrow> request \<Rightarrow> 'b fetch_result \<times> 's) \<Rightarrow> 's \<Rightarrow> request \<Rightarrow> 'b fetch_result \<times> 's" where
  "over_http srv s rq = srv s (rq\<lparr>url := without_fragment (url rq)\<rparr>)"

section \<open>The route guard\<close>

lemma adminRoutes_protected: "set adminRoutes \<subseteq> set protectedRoutes"
  by (simp add: adminRoutes_def protectedRoutes_def)

lemma path_of_query:
  assumes "P \<noteq> []" and "CHR ''?'' \<notin> set P"
  shows "path_of (CHR ''#'' # P @ CHR ''?'' # q) = P" and "path_of (CHR ''#'' # P) = P"
proof -
  have "takeWhile (\<lambda>c. c \<noteq> CHR ''?'') (P @ CHR ''?'' # q) = P"
    using assms(2) by (subst takeWhile_append2) auto
  with assms(1) show "path_of (CHR ''#'' # P @ CHR ''?'' # q) = P"
    by (simp add: path_of_def)
  have "takeWhile (\<lambda>c. c \<noteq> CHR ''?'') P = P"
    using assms(2) by (auto simp: takeWhile_eq_all_conv)
  with assms(1) show "path_of (CHR ''#'' # P) = P"
    by (simp add: path_of_def)
qed

lemma admin_path_of:
  assumes "P \<in> set adminRoutes"
  shows "path_of (CHR ''#'' # P) = P" and "path_of (CHR ''#'' # P @ CHR ''?'' # q) = P"
proof -
  from assms have "P \<noteq> [] \<and> CHR ''?'' \<notin> set P"
    by (auto simp: adminRoutes_def)
  then show "path_of (CHR ''#'' # P) = P" and "path_of (CHR ''#'' # P @ CHR ''?'' # q) = P"
    by (simp_all add: path_of_query)
qed

text \<open>
  C1. A request for an admin route while no principal is present is redirected to
  \<open>/login\<close>, not to \<open>/not-found\<close>: admin routes are protected routes, and the
  authentication check comes first.
\<close>

theorem admin_route_unauthenticated_login:
  assumes "path_of location_hash \<in> set adminRoutes" and "\<not> isAuthenticated w"
  shows "handleRoute location_hash w = Redirect ''#/login'' \<and>
         handleRoute location_hash w \<noteq> Redirect ''#/not-found''"
proof -
  from assms(1) adminRoutes_protected
  have "path_of location_hash \<in> set protectedRoutes" by blast
  with assms(2) show ?thesis by (simp add: handleRoute_def)
qed

theorem admin_route_unauthenticated_login_witness:
  "path_of ''#/students/edit?id=7'' \<in> set adminRoutes \<and>
   \<not> isAuthenticated (page_load Map.empty) \<and>
   handleRoute ''#/students/edit?id=7'' (page_load Map.empty) = Redirect ''#/login'' \<and>
   handleRoute ''#/students/edit?id=7'' (page_load Map.empty) \<noteq> Redirect ''#/not-found''"
proof -
  have p: "path_of ''#/students/edit?id=7'' \<in> set adminRoutes"
    by (simp add: path_of_def adminRoutes_def)
  have a: "\<not> isAuthenticated (page_load Map.empty)"
    by (simp add: isAuthenticated_def getUser_def page_load_def)
  from admin_route_unauthenticated_login [OF p a] p a show ?thesis by simp
qed

text \<open>
  C2. A request for an admin route while a principal is present whose role is not
  \<open>admin\<close> is redirected to \<open>/not-found\<close>; nothing is rendered in that run.
\<close>

theorem admin_route_non_admin_not_found:
  assumes "path_of location_hash \<in> set adminRoutes"
    and "getUser w \<noteq> JNull"
    and "js_get (getUser w) ''role'' \<noteq> Some (JStr ''admin'')"
  shows "handleRoute location_hash w = Redirect ''#/not-found'' \<and>
         (\<forall>v. handleRoute location_hash w \<noteq> Render v)"
  using assms by (simp add: handleRoute_def isAuthenticated_def isAdmin_def)

theorem admin_route_non_admin_not_found_witness:
  "path_of ''#/students/edit?id=7'' \<in> set adminRoutes \<and>
   getUser (page_load Map.empty\<lparr>user := JObj [(''id'', JStr ''2''), (''role'', JStr ''user'')]\<rparr>)
     \<noteq> JNull \<and>
   js_get (getUser (page_load Map.empty\<lparr>user := JObj [(''id'', JStr ''2''), (''role'', JStr ''user'')]\<rparr>))
     ''role'' \<noteq> Some (JStr ''admin'') \<and>
   handleRoute ''#/students/edit?id=7''
     (page_load Map.empty\<lparr>user := JObj [(''id'', JStr ''2''), (''role'', JStr ''user'')]\<rparr>)
     = Redirect ''#/not-found''"
proof -
  let ?w = "page_load Map.empty\<lparr>user := JObj [(''id'', JStr ''2''), (''role'', JStr ''user'')]\<rparr>"
  have p: "path_of ''#/students/edit?id=7'' \<in> set adminRoutes"
    by (simp add: path_of_def adminRoutes_def)
  have u: "getUser ?w \<noteq> JNull"
    by (simp add: getUser_def)
  have r: "js_get (getUser ?w) ''role'' \<noteq> Some (JStr ''admin'')"
    by (simp add: getUser_def)
  from admin_route_non_admin_not_found [OF p u r] p u r show ?thesis by simp
qed

section \<open>The Store\<close>

lemma setUser_returns: "u \<noteq> JNull \<Longrightarrow> fst (setUser stringify u w) = Inr ()"
  by (simp add: setUser_def Let_def)

lemma setUser_other_keys:
  "k \<noteq> ''currentUser'' \<Longrightarrow> localStorage (snd (setUser stringify u w)) k = localStorage w k"
  by (simp add: setUser_def Let_def)

text \<open>
  C8. \<open>setUser(p)\<close> followed by \<open>getUser()\<close> gives \<open>p\<close> back, and the persisted slot
  then holds the serialisation of \<open>p\<close> and nothing of what it held before.
\<close>

theorem setUser_getUser:
  "getUser (snd (setUser stringify p w)) = p \<and>
   localStorage (snd (setUser stringify p w)) ''currentUser'' = Some (stringify p)"
  by (simp add: setUser_def getUser_def Let_def)

text \<open>
  C9. After \<open>clearUser()\<close>, \<open>getUser()\<close> answers \<open>null\<close> and the slot is gone; \<open>init()\<close>
  on the next page load returns normally and leaves \<open>getUser()\<close> at \<open>null\<close>.
\<close>

theorem clearUser_then_absent:
  "getUser (clearUser w) = JNull \<and>
   localStorage (clearUser w) ''currentUser'' = None \<and>
   fst (init parse (page_load (localStorage (clearUser w)))) = Inr () \<and>
   getUser (snd (init parse (page_load (localStorage (clearUser w))))) = JNull \<and>
   getUser (snd (init parse (clearUser w))) = JNull"
  by (simp add: clearUser_def getUser_def init_def page_load_def Let_def)

text \<open>
  C3, as the code has it. \<open>init()\<close> returns normally and leaves the state as it is
  when the slot is absent or holds the empty string, and loads the parsed value when
  the slot holds text that \<open>JSON.parse\<close> accepts and that does not denote \<open>null\<close>.
  Malformed text is not treated like an absent slot: the SyntaxError of \<open>JSON.parse\<close>
  leaves \<open>init()\<close>, with the state unchanged. For the text \<open>null\<close> the assignment is
  made and the log line throws a TypeError.
\<close>

theorem init_outcomes:
  "(localStorage w ''currentUser'' = None \<or> localStorage w ''currentUser'' = Some [] \<longrightarrow>
      init parse w = (Inr (), w)) \<and>
   (localStorage w ''currentUser'' = Some s \<and> s \<noteq> [] \<and> parse s = Some v \<and> v \<noteq> JNull \<longrightarrow>
      init parse w = (Inr (), w\<lparr>user := v\<rparr>)) \<and>
   (localStorage w ''currentUser'' = Some s \<and> s \<noteq> [] \<and> parse s = None \<longrightarrow>
      init parse w = (Inl SyntaxError, w)) \<and>
   (localStorage w ''currentUser'' = Some s \<and> s \<noteq> [] \<and> parse s = Some JNull \<longrightarrow>
      init parse w = (Inl TypeError, w\<lparr>user := JNull\<rparr>))"
  by (auto simp: init_def Let_def)

lemma parse_admin_record: "json_parse (json_stringify admin_record) = Some admin_record"
  by code_simp

lemma admin_text_nonempty: "json_stringify admin_record \<noteq> []"
  by (simp add: admin_record_def)

lemma parse_brace: "json_parse ''{'' = None"
  by (simp add: json_parse_def)

lemma parse_null: "json_parse ''null'' = Some JNull"
  by (simp add: json_parse_def parse_literal_def is_ws_def)

text \<open>
  The four cases on a fresh page: no slot and an empty slot, the stored administrator, an
  opening brace alone, and the text \<open>null\<close>.
\<close>

theorem init_outcomes_witness:
  "init json_parse (page_load Map.empty) = (Inr (), page_load Map.empty) \<and>
   init json_parse (page_load [''currentUser'' \<mapsto> []]) =
     (Inr (), page_load [''currentUser'' \<mapsto> []]) \<and>
   init json_parse (page_load [''currentUser'' \<mapsto> json_stringify admin_record]) =
     (Inr (), page_load [''currentUser'' \<mapsto> json_stringify admin_record]\<lparr>user := admin_record\<rparr>) \<and>
   init json_parse (page_load [''currentUser'' \<mapsto> ''{'']) =
     (Inl SyntaxError, page_load [''currentUser'' \<mapsto> ''{'']) \<and>
   init json_parse (page_load [''currentUser'' \<mapsto> ''null'']) =
     (Inl TypeError, page_load [''currentUser'' \<mapsto> ''null'']\<lparr>user := JNull\<rparr>)"
proof -
  have n: "admin_record \<noteq> JNull"
    by (simp add: admin_record_def)
  have l: "\<And>t. localStorage (page_load [''currentUser'' \<mapsto> t]) ''currentUser'' = Some t"
    "localStorage (page_load Map.empty) ''currentUser'' = None"
    by (simp_all add: page_load_def)
  from init_outcomes [of "page_load Map.empty" json_parse "[]" JNull]
       init_outcomes [of "page_load [''currentUser'' \<mapsto> []]" json_parse "[]" JNull]
       init_outcomes [of "page_load [''currentUser'' \<mapsto> json_stringify admin_record]" json_parse
         "json_stringify admin_record" admin_record]
       init_outcomes [of "page_load [''currentUser'' \<mapsto> ''{'']" json_parse "''{''" JNull]
       init_outcomes [of "page_load [''currentUser'' \<mapsto> ''null'']" json_parse "''null''" JNull]
       parse_admin_record admin_text_nonempty parse_brace parse_null n l
  show ?thesis by simp
qed

text \<open>
  C3 as stated fails: with an opening brace in the slot an error leaves \<open>init()\<close>,
  while with no slot it returns normally.
\<close>

theorem init_malformed_escapes:
  "fst (init json_parse (page_load [''currentUser'' \<mapsto> ''{''])) = Inl SyntaxError \<and>
   fst (init json_parse (page_load Map.empty)) = Inr ()"
  by (simp add: init_def page_load_def json_parse_def)

section \<open>The API client\<close>

lemma sent_fetch: "sent (snd (fetch srv rq n)) = sent n @ [rq]"
  by (simp add: fetch_def split: prod.splits)

lemma fst_fetch: "fst (fetch srv rq n) = fst (srv (peer n) rq)"
  by (simp add: fetch_def split: prod.splits)

lemma peer_fetch: "peer (snd (fetch srv rq n)) = snd (srv (peer n) rq)"
  by (simp add: fetch_def split: prod.splits)

lemma get_failure:
  "sent (snd (apiService_get srv endpoint n)) = sent n @ [get_request endpoint] \<and>
   (fst (srv (peer n) (get_request endpoint)) = Rejected e \<longrightarrow>
      fst (apiService_get srv endpoint n) = Inl e) \<and>
   (fst (srv (peer n) (get_request endpoint)) = Response status statusText json \<and> \<not> ok status \<longrightarrow>
      fst (apiService_get srv endpoint n) =
        Inl (Error (''Error fetching data: '' @ show_nat status @ '' '' @ statusText)))"
  unfolding apiService_get_def
  by (cases "fetch srv (get_request endpoint) n")
     (use sent_fetch [of srv "get_request endpoint" n] fst_fetch [of srv "get_request endpoint" n]
      in \<open>auto split: fetch_result.splits option.splits\<close>)

lemma post_failure:
  "sent (snd (apiService_post srv endpoint data n)) = sent n @ [post_request endpoint data] \<and>
   (fst (srv (peer n) (post_request endpoint data)) = Rejected e \<longrightarrow>
      fst (apiService_post srv endpoint data n) = Inl e) \<and>
   (fst (srv (peer n) (post_request endpoint data)) = Response status statusText json \<and> \<not> ok status \<longrightarrow>
      fst (apiService_post srv endpoint data n) =
        Inl (Error (''Error posting data: '' @ show_nat status @ '' '' @ statusText)))"
  unfolding apiService_post_def
  by (cases "fetch srv (post_request endpoint data) n")
     (use sent_fetch [of srv "post_request endpoint data" n]
          fst_fetch [of srv "post_request endpoint data" n]
      in \<open>auto split: fetch_result.splits option.splits\<close>)

lemma put_failure:
  "sent (snd (apiService_put srv endpoint data n)) = sent n @ [put_request endpoint data] \<and>
   (fst (srv (peer n) (put_request endpoint data)) = Rejected e \<longrightarrow>
      fst (apiService_put srv endpoint data n) = Inl e) \<and>
   (fst (srv (peer n) (put_request endpoint data)) = Response status statusText json \<and> \<not> ok status \<longrightarrow>
      fst (apiService_put srv endpoint data n) =
        Inl (Error (''Error updating data: '' @ show_nat status @ '' '' @ statusText)))"
  unfolding apiService_put_def
  by (cases "fetch srv (put_request endpoint data) n")
     (use sent_fetch [of srv "put_request endpoint data" n]
          fst_fetch [of srv "put_request endpoint data" n]
      in \<open>auto split: fetch_result.splits option.splits\<close>)

lemma delete_failure:
  "sent (snd (apiService_delete srv endpoint n)) = sent n @ [delete_request endpoint] \<and>
   (fst (srv (peer n) (delete_request endpoint)) = Rejected e \<longrightarrow>
      fst (apiService_delete srv endpoint n) = Inl e) \<and>
   (fst (srv (peer n) (delete_request endpoint)) = Response status statusText json \<and> \<not> ok status \<longrightarrow>
      fst (apiService_delete srv endpoint n) =
        Inl (Error (''Error deleting data: '' @ show_nat status @ '' '' @ statusText)))"
  unfolding apiService_delete_def
  by (cases "fetch srv (delete_request endpoint) n")
     (use sent_fetch [of srv "delete_request endpoint" n]
          fst_fetch [of srv "delete_request endpoint" n]
      in \<open>auto split: fetch_result.splits option.splits\<close>)

text \<open>
  C5, as the code has it. Each of the four methods sends exactly one request. When
  \<open>fetch\<close> rejects, the method throws the value \<open>fetch\<close> rejected with, unchanged. When
  the status is outside 200 to 299, it throws an \<open>Error\<close> whose message names the
  operation's verb, the status and the status text; the path is not part of it.
\<close>

theorem api_failure_thrown_once:
  fixes srv :: "'s \<Rightarrow> request \<Rightarrow> 'b fetch_result \<times> 's"
  shows
  "(sent (snd (apiService_get srv endpoint n)) = sent n @ [get_request endpoint] \<and>
    sent (snd (apiService_post srv endpoint data n)) = sent n @ [post_request endpoint data] \<and>
    sent (snd (apiService_put srv endpoint data n)) = sent n @ [put_request endpoint data] \<and>
    sent (snd (apiService_delete srv endpoint n)) = sent n @ [delete_request endpoint]) \<and>
   ((fst (srv (peer n) (get_request endpoint)) = Rejected e \<longrightarrow>
       fst (apiService_get srv endpoint n) = Inl e) \<and>
    (fst (srv (peer n) (post_request endpoint data)) = Rejected e \<longrightarrow>
       fst (apiService_post srv endpoint data n) = Inl e) \<and>
    (fst (srv (peer n) (put_request endpoint data)) = Rejected e \<longrightarrow>
       fst (apiService_put srv endpoint data n) = Inl e) \<and>
    (fst (srv (peer n) (delete_request endpoint)) = Rejected e \<longrightarrow>
       fst (apiService_delete srv endpoint n) = Inl e)) \<and>
   ((fst (srv (peer n) (get_request endpoint)) = Response status statusText json \<and> \<not> ok status \<longrightarrow>
       fst (apiService_get srv endpoint n) =
         Inl (Error (''Error fetching data: '' @ show_nat status @ '' '' @ statusText))) \<and>
    (fst (srv (peer n) (post_request endpoint data)) = Response status statusText json \<and> \<not> ok status \<longrightarrow>
       fst (apiService_post srv endpoint data n) =
         Inl (Error (''Error posting data: '' @ show_nat status @ '' '' @ statusText))) \<and>
    (fst (srv (peer n) (put_request endpoint data)) = Response status statusText json \<and> \<not> ok status \<longrightarrow>
       fst (apiService_put srv endpoint data n) =
         Inl (Error (''Error updating data: '' @ show_nat status @ '' '' @ statusText))) \<and>
    (fst (srv (peer n) (delete_request endpoint)) = Response status statusText json \<and> \<not> ok status \<longrightarrow>
       fst (apiService_delete srv endpoint n) =
         Inl (Error (''Error deleting data: '' @ show_nat status @ '' '' @ statusText))))"
  using get_failure [of srv endpoint n e status statusText json]
        post_failure [of srv endpoint data n e status statusText json]
        put_failure [of srv endpoint data n e status statusText json]
        delete_failure [of srv endpoint n e status statusText json]
  by simp

lemma show_nat_500: "show_nat 500 = ''500''"
  by simp

text \<open>
  Both failures at a concrete request: a peer that answers 500 and one that cannot be
  reached.
\<close>

theorem api_failure_thrown_once_witness:
  "fst (apiService_get server_error ''/students/5'' seeded) =
     (Inl (Error ''Error fetching data: 500 Internal Server Error'') :: js_error + jsval) \<and>
   fst (apiService_post server_error ''/students/5'' (JObj []) seeded) =
     (Inl (Error ''Error posting data: 500 Internal Server Error'') :: js_error + jsval) \<and>
   fst (apiService_put server_error ''/students/5'' (JObj []) seeded) =
     (Inl (Error ''Error updating data: 500 Internal Server Error'') :: js_error + jsval) \<and>
   fst (apiService_delete (server_error :: jsval list \<Rightarrow> request \<Rightarrow> jsval fetch_result \<times> jsval list)
          ''/students/5'' seeded) =
     Inl (Error ''Error deleting data: 500 Internal Server Error'') \<and>
   fst (apiService_get unreachable ''/students/5'' seeded) = (Inl TypeError :: js_error + jsval) \<and>
   fst (apiService_post unreachable ''/students/5'' (JObj []) seeded) = (Inl TypeError :: js_error + jsval) \<and>
   fst (apiService_put unreachable ''/students/5'' (JObj []) seeded) = (Inl TypeError :: js_error + jsval) \<and>
   fst (apiService_delete (unreachable :: jsval list \<Rightarrow> request \<Rightarrow> jsval fetch_result \<times> jsval list)
          ''/students/5'' seeded) = Inl TypeError \<and>
   sent (snd (apiService_get (unreachable :: jsval list \<Rightarrow> request \<Rightarrow> jsval fetch_result \<times> jsval list)
          ''/students/5'' seeded)) = [get_request ''/students/5'']"
proof -
  let ?down = "server_error :: jsval list \<Rightarrow> request \<Rightarrow> jsval fetch_result \<times> jsval list"
  let ?off = "unreachable :: jsval list \<Rightarrow> request \<Rightarrow> jsval fetch_result \<times> jsval list"
  have s: "\<And>rq. fst (?down (peer seeded) rq) = Response 500 ''Internal Server Error'' None"
    by (simp add: server_error_def)
  have k: "\<not> ok 500"
    by (simp add: ok_def)
  have r: "\<And>rq. fst (?off (peer seeded) rq) = Rejected TypeError"
    by (simp add: unreachable_def)
  have e: "sent seeded = []"
    by (simp add: seeded_def)
  from api_failure_thrown_once [of ?down "''/students/5''" seeded "JObj []" TypeError 500
         "''Internal Server Error''" None]
       api_failure_thrown_once [of ?off "''/students/5''" seeded "JObj []" TypeError 500
         "''Internal Server Error''" None]
       s k r e show_nat_500
  show ?thesis by simp
qed

text \<open>
  C5 as stated fails: the error thrown for \<open>/students\<close> is the error thrown for
  \<open>/payments\<close>, so it does not carry the path; and after a transport failure a read
  and a remove throw the same value, which names neither path nor operation.
\<close>

theorem api_error_without_path:
  "fst (apiService_get server_error ''/students'' seeded) =
     (fst (apiService_get server_error ''/payments'' seeded) :: js_error + jsval) \<and>
   fst (apiService_get server_error ''/students'' seeded) =
     (Inl (Error ''Error fetching data: 500 Internal Server Error'') :: js_error + jsval) \<and>
   fst (apiService_get server_error ''/payments'' seeded) =
     (Inl (Error ''Error fetching data: 500 Internal Server Error'') :: js_error + jsval) \<and>
   fst (apiService_get unreachable ''/students'' seeded) = (Inl TypeError :: js_error + jsval) \<and>
   fst (apiService_delete (unreachable :: jsval list \<Rightarrow> request \<Rightarrow> jsval fetch_result \<times> jsval list)
          ''/payments/3'' seeded) = Inl TypeError"
  by (simp add: apiService_get_def apiService_delete_def fetch_def server_error_def
        unreachable_def ok_def)

section \<open>login\<close>

lemma get_returns:
  assumes "fst (srv (peer n) (get_request endpoint)) = Response status statusText (Some v)"
    and "ok status"
  shows "fst (apiService_get srv endpoint n) = Inr v"
  using assms fst_fetch [of srv "get_request endpoint" n]
  unfolding apiService_get_def
  by (cases "fetch srv (get_request endpoint) n") auto

lemma login_on_get:
  "login srv stringify em pw (w, n) =
     (case fst (apiService_get srv (''/users?email='' @ em @ ''&password='' @ pw) n) of
        Inl error \<Rightarrow>
          (Failure login_error_message, w,
           snd (apiService_get srv (''/users?email='' @ em @ ''&password='' @ pw) n))
      | Inr users \<Rightarrow>
          if length users > 0
          then (case fst (setUser stringify (users ! 0) w) of
                  Inl error \<Rightarrow>
                    (Failure login_error_message, snd (setUser stringify (users ! 0) w),
                     snd (apiService_get srv (''/users?email='' @ em @ ''&password='' @ pw) n))
                | Inr _ \<Rightarrow>
                    (Success (users ! 0), snd (setUser stringify (users ! 0) w),
                     snd (apiService_get srv (''/users?email='' @ em @ ''&password='' @ pw) n)))
          else (Failure invalid_credentials_message, w,
                snd (apiService_get srv (''/users?email='' @ em @ ''&password='' @ pw) n)))"
  by (simp add: login_def Let_def split: prod.splits sum.splits)

text \<open>
  The no-match branch: when the credential query is answered with an empty array,
  \<open>login\<close> returns a failure with the fixed message \<open>invalid_credentials_message\<close>,
  and the Store and the persisted slot are what they were; \<open>setUser\<close> is not reached.
\<close>

lemma login_empty_answer:
  assumes "fst (srv (peer n) (get_request (''/users?email='' @ em @ ''&password='' @ pw))) =
             Response status statusText (Some [])"
    and "ok status"
  shows "fst (login srv stringify em pw (w, n)) = Failure invalid_credentials_message \<and>
         fst (snd (login srv stringify em pw (w, n))) = w"
  using assms
    get_returns [where srv = srv and n = n and status = status and statusText = statusText
      and v = "[]" and endpoint = "''/users?email='' @ em @ ''&password='' @ pw"]
  by (simp add: login_on_get)

lemma admin_query_over_http:
  "fst (over_http exact_match_get (peer seeded)
          (get_request (''/users?email='' @ ''admin@crudops.com'' @ ''&password='' @ ''admin123#zzz''))) =
     Response 200 ''OK'' (Some [admin_record])"
  by (simp add: over_http_def without_fragment_def exact_match_get_def seeded_def
        get_request_def exact_match_def string_field_def admin_record_def API_URL_def)

text \<open>
  C6. An email and password that match no credential record should end in a failure
  with the Store unchanged. \<open>login\<close> writes both into the URL as they were typed, so
  a \<open>#\<close> in the password starts the fragment and the peer sees the password only up
  to it. With the administrator stored under the password \<open>admin123\<close>, the pair
  \<open>admin@crudops.com\<close>, \<open>admin123#zzz\<close> matches no record, and yet \<open>login\<close>
  succeeds and puts the administrator into the Store and the persisted slot.
\<close>

theorem login_fragment_password_accepted:
  "filter (\<lambda>u. string_field u ''email'' = Some ''admin@crudops.com'' \<and>
               string_field u ''password'' = Some ''admin123#zzz'') (peer seeded) = [] \<and>
   fst (login (over_http exact_match_get) json_stringify ''admin@crudops.com'' ''admin123#zzz''
          (page_load Map.empty, seeded)) = Success admin_record \<and>
   getUser (fst (snd (login (over_http exact_match_get) json_stringify ''admin@crudops.com''
          ''admin123#zzz'' (page_load Map.empty, seeded)))) = admin_record \<and>
   localStorage (fst (snd (login (over_http exact_match_get) json_stringify ''admin@crudops.com''
          ''admin123#zzz'' (page_load Map.empty, seeded)))) ''currentUser'' =
     Some (json_stringify admin_record)"
proof -
  have none: "filter (\<lambda>u. string_field u ''email'' = Some ''admin@crudops.com'' \<and>
                 string_field u ''password'' = Some ''admin123#zzz'') (peer seeded) = []"
    by (simp add: seeded_def admin_record_def string_field_def)
  have ok200: "ok 200"
    by (simp add: ok_def)
  have got: "fst (apiService_get (over_http exact_match_get)
                (''/users?email='' @ ''admin@crudops.com'' @ ''&password='' @ ''admin123#zzz'') seeded) =
             Inr [admin_record]"
    using admin_query_over_http ok200
    by (rule get_returns)
  have present: "admin_record \<noteq> JNull"
    by (simp add: admin_record_def)
  have run: "login (over_http exact_match_get) json_stringify ''admin@crudops.com'' ''admin123#zzz''
               (page_load Map.empty, seeded) =
             (Success admin_record, snd (setUser json_stringify admin_record (page_load Map.empty)),
              snd (apiService_get (over_http exact_match_get)
                (''/users?email='' @ ''admin@crudops.com'' @ ''&password='' @ ''admin123#zzz'') seeded))"
    using got setUser_returns [OF present, of json_stringify "page_load Map.empty"]
    by (simp add: login_on_get)
  have store: "getUser (snd (setUser json_stringify admin_record (page_load Map.empty))) = admin_record"
    "localStorage (snd (setUser json_stringify admin_record (page_load Map.empty))) ''currentUser'' =
       Some (json_stringify admin_record)"
    by (simp_all add: setUser_def getUser_def Let_def)
  from none run store show ?thesis by simp
qed

text \<open>
  C7, as the code has it. Both causes end in a failure result, but with two messages:
  the no-match branch returns \<open>invalid_credentials_message\<close>, and the \<open>catch\<close>
  branch, where every thrown error ends, returns \<open>login_error_message\<close>.
\<close>

theorem login_failure_messages:
  "(fst (apiService_get srv (''/users?email='' @ em @ ''&password='' @ pw) n) = Inr [] \<longrightarrow>
      fst (login srv stringify em pw (w, n)) = Failure invalid_credentials_message) \<and>
   (fst (apiService_get srv (''/users?email='' @ em @ ''&password='' @ pw) n) = Inl e \<longrightarrow>
      fst (login srv stringify em pw (w, n)) = Failure login_error_message) \<and>
   invalid_credentials_message \<noteq> login_error_message"
  by (simp add: login_on_get invalid_credentials_message_def login_error_message_def)

text \<open>
  C7 as stated fails: for the same email and password, the result after a no-match
  answer differs from the result after a transport failure.
\<close>

theorem login_failure_messages_differ:
  "fst (login exact_match_get json_stringify ''admin@crudops.com'' ''wrong''
          (page_load Map.empty, seeded)) \<noteq>
   fst (login unreachable json_stringify ''admin@crudops.com'' ''wrong''
          (page_load Map.empty, seeded))"
  by (simp add: login_def apiService_get_def fetch_def Let_def exact_match_get_def seeded_def
        get_request_def exact_match_def string_field_def admin_record_def API_URL_def
        unreachable_def ok_def invalid_credentials_message_def login_error_message_def)

text \<open>
  The two branches at the seeded backend and at an unreachable one.
\<close>

theorem login_failure_messages_witness:
  "fst (apiService_get exact_match_get
          (''/users?email='' @ ''admin@crudops.com'' @ ''&password='' @ ''wrong'') seeded) = Inr [] \<and>
   fst (login exact_match_get json_stringify ''admin@crudops.com'' ''wrong''
          (page_load Map.empty, seeded)) = Failure invalid_credentials_message \<and>
   fst (apiService_get (unreachable :: jsval list \<Rightarrow> request \<Rightarrow> jsval list fetch_result \<times> jsval list)
          (''/users?email='' @ ''admin@crudops.com'' @ ''&password='' @ ''wrong'') seeded) =
     Inl TypeError \<and>
   fst (login unreachable json_stringify ''admin@crudops.com'' ''wrong''
          (page_load Map.empty, seeded)) = Failure login_error_message"
proof -
  have a: "fst (apiService_get exact_match_get
             (''/users?email='' @ ''admin@crudops.com'' @ ''&password='' @ ''wrong'') seeded) = Inr []"
    by (simp add: apiService_get_def fetch_def exact_match_get_def seeded_def get_request_def
          exact_match_def string_field_def admin_record_def API_URL_def ok_def)
  have b: "fst (apiService_get
             (unreachable :: jsval list \<Rightarrow> request \<Rightarrow> jsval list fetch_result \<times> jsval list)
             (''/users?email='' @ ''admin@crudops.com'' @ ''&password='' @ ''wrong'') seeded) =
           Inl TypeError"
    by (simp add: apiService_get_def fetch_def unreachable_def)
  from login_failure_messages [of exact_match_get "''admin@crudops.com''" "''wrong''" seeded
         json_stringify "page_load Map.empty" TypeError]
       login_failure_messages [of unreachable "''admin@crudops.com''" "''wrong''" seeded
         json_stringify "page_load Map.empty" TypeError]
       a b
  show ?thesis by simp
qed

section \<open>register\<close>

lemma sent_get: "sent (snd (apiService_get srv endpoint n)) = sent n @ [get_request endpoint]"
  using get_failure [of srv endpoint n] by simp

lemma sent_post:
  "sent (snd (apiService_post srv endpoint data n)) = sent n @ [post_request endpoint data]"
  using post_failure [of srv endpoint data n] by simp

lemma register_sent:
  assumes "fst (apiService_get srv_get (''/users?email='' @ email ud) n) = Inr []"
  shows "sent (snd (snd (register srv_get srv_post stringify ud (w, n)))) =
           sent n @ [get_request (''/users?email='' @ email ud), post_request ''/users'' (new_user ud)]"
proof -
  obtain r n1 where g: "apiService_get srv_get (''/users?email='' @ email ud) n = (r, n1)"
    by (cases "apiService_get srv_get (''/users?email='' @ email ud) n")
  with assms have r: "r = Inr []" by simp
  from g sent_get [of srv_get "''/users?email='' @ email ud" n]
  have s1: "sent n1 = sent n @ [get_request (''/users?email='' @ email ud)]" by simp
  obtain r2 n2 where p: "apiService_post srv_post ''/users'' (new_user ud) n1 = (r2, n2)"
    by (cases "apiService_post srv_post ''/users'' (new_user ud) n1")
  from p sent_post [of srv_post "''/users''" "new_user ud" n1]
  have s2: "sent n2 = sent n1 @ [post_request ''/users'' (new_user ud)]" by simp
  have "snd (snd (register srv_get srv_post stringify ud (w, n))) = n2"
    using g r p by (simp add: register_def Let_def split: prod.splits sum.splits)
  with s1 s2 show ?thesis by simp
qed

lemma register_existing_email:
  assumes "fst (apiService_get srv_get (''/users?email='' @ email ud) n) = Inr (u # us)"
  shows "fst (register srv_get srv_post stringify ud (w, n)) = Failure email_registered_message"
    and "fst (snd (register srv_get srv_post stringify ud (w, n))) = w"
    and "sent (snd (snd (register srv_get srv_post stringify ud (w, n)))) =
           sent n @ [get_request (''/users?email='' @ email ud)]"
proof -
  obtain r n1 where g: "apiService_get srv_get (''/users?email='' @ email ud) n = (r, n1)"
    by (cases "apiService_get srv_get (''/users?email='' @ email ud) n")
  with assms have r: "r = Inr (u # us)" by simp
  from g sent_get [of srv_get "''/users?email='' @ email ud" n]
  have s1: "sent n1 = sent n @ [get_request (''/users?email='' @ email ud)]" by simp
  have "register srv_get srv_post stringify ud (w, n) = (Failure email_registered_message, w, n1)"
    using g r by (simp add: register_def Let_def)
  with s1 show "fst (register srv_get srv_post stringify ud (w, n)) = Failure email_registered_message"
    and "fst (snd (register srv_get srv_post stringify ud (w, n))) = w"
    and "sent (snd (snd (register srv_get srv_post stringify ud (w, n)))) =
           sent n @ [get_request (''/users?email='' @ email ud)]"
    by simp_all
qed

text \<open>
  C10. When the email query finds no user, \<open>register\<close> sends one POST to \<open>/users\<close>
  whose body is the request's fields with the role defaulted: a missing or falsy role
  becomes \<open>user\<close>, and the role sent is always the supplied one or \<open>user\<close>.
\<close>

theorem register_default_role:
  assumes "fst (srv_get (peer n) (get_request (''/users?email='' @ email ud))) =
             Response status statusText (Some [])"
    and "ok status"
  shows "sent (snd (snd (register srv_get srv_post stringify ud (w, n)))) =
           sent n @ [get_request (''/users?email='' @ email ud),
                     post_request ''/users'' (new_user ud)] \<and>
         (role ud = None \<or> (\<exists>r. role ud = Some r \<and> \<not> truthy r) \<longrightarrow>
            js_get (new_user ud) ''role'' = Some (JStr ''user'')) \<and>
         (js_get (new_user ud) ''role'' = role ud \<or>
          js_get (new_user ud) ''role'' = Some (JStr ''user''))"
proof -
  from assms
    get_returns [where srv = srv_get and n = n and status = status and statusText = statusText
      and v = "[]" and endpoint = "''/users?email='' @ email ud"]
  have "fst (apiService_get srv_get (''/users?email='' @ email ud) n) = Inr []" by simp
  then have "sent (snd (snd (register srv_get srv_post stringify ud (w, n)))) =
           sent n @ [get_request (''/users?email='' @ email ud),
                     post_request ''/users'' (new_user ud)]"
    by (rule register_sent)
  moreover have "role ud = None \<or> (\<exists>r. role ud = Some r \<and> \<not> truthy r) \<longrightarrow>
            js_get (new_user ud) ''role'' = Some (JStr ''user'')"
    by (auto simp: new_user_def)
  moreover have "js_get (new_user ud) ''role'' = role ud \<or>
          js_get (new_user ud) ''role'' = Some (JStr ''user'')"
    by (simp add: new_user_def split: option.splits)
  ultimately show ?thesis by blast
qed

text \<open>
  A registration with the empty string as role.
\<close>

theorem register_default_role_witness:
  "fst (exact_match_get (peer seeded) (get_request (''/users?email='' @ email bea))) =
     Response 200 ''OK'' (Some []) \<and>
   ok 200 \<and>
   (role bea = None \<or> (\<exists>r. role bea = Some r \<and> \<not> truthy r)) \<and>
   sent (snd (snd (register exact_match_get exact_match_post json_stringify bea
                     (page_load Map.empty, seeded)))) =
     [get_request ''/users?email=bea@test.com'',
      post_request ''/users''
        (JObj [(''name'', JStr ''Bea''), (''email'', JStr ''bea@test.com''),
               (''password'', JStr ''secret''), (''role'', JStr ''user'')])] \<and>
   js_get (new_user bea) ''role'' = Some (JStr ''user'')"
proof -
  have a: "fst (exact_match_get (peer seeded) (get_request (''/users?email='' @ email bea))) =
             Response 200 ''OK'' (Some [])"
    by (simp add: exact_match_get_def seeded_def get_request_def exact_match_def
          string_field_def admin_record_def API_URL_def bea_def)
  have b: "ok 200"
    by (simp add: ok_def)
  have c: "role bea = None \<or> (\<exists>r. role bea = Some r \<and> \<not> truthy r)"
    by (simp add: bea_def)
  have d: "new_user bea =
             JObj [(''name'', JStr ''Bea''), (''email'', JStr ''bea@test.com''),
                   (''password'', JStr ''secret''), (''role'', JStr ''user'')]"
    by (simp add: new_user_def bea_def)
  have e: "email bea = ''bea@test.com''" "sent seeded = []"
    by (simp_all add: bea_def seeded_def)
  from register_default_role [where srv_get = exact_match_get and n = seeded and ud = bea
         and status = 200 and statusText = "''OK''" and srv_post = exact_match_post
         and stringify = json_stringify and w = "page_load Map.empty"] a b c
  show ?thesis by (simp add: d e)
qed

text \<open>
  C4. \<open>register\<close> puts the email into the query as it was typed, so whether letter
  case matters is left to the backend's filter. Against a backend that filters by
  equality, as json-server does, registering \<open>Ana@Test.com\<close> after \<open>ana@test.com\<close>
  succeeds and a second record is stored.
\<close>

theorem register_case_variant_accepted:
  "fst first_registration =
     Success (JObj [(''name'', JStr ''Ana''), (''email'', JStr ''ana@test.com''),
                    (''password'', JStr ''secret''), (''role'', JStr ''user''), (''id'', JNum 1)]) \<and>
   fst second_registration =
     Success (JObj [(''name'', JStr ''Ana''), (''email'', JStr ''Ana@Test.com''),
                    (''password'', JStr ''secret''), (''role'', JStr ''user''), (''id'', JNum 2)]) \<and>
   peer (snd (snd second_registration)) =
     [JObj [(''name'', JStr ''Ana''), (''email'', JStr ''ana@test.com''),
            (''password'', JStr ''secret''), (''role'', JStr ''user''), (''id'', JNum 1)],
      JObj [(''name'', JStr ''Ana''), (''email'', JStr ''Ana@Test.com''),
            (''password'', JStr ''secret''), (''role'', JStr ''user''), (''id'', JNum 2)]]"
  by (simp add: first_registration_def second_registration_def register_def
        apiService_get_def apiService_post_def fetch_def Let_def get_request_def
        post_request_def exact_match_get_def exact_match_post_def exact_match_def
        string_field_def new_user_def ana_lower_def ana_upper_def setUser_def ok_def
        page_load_def API_URL_def)

end
